theory Spec2Isabelle
  imports Complex_Main
begin

text \<open>
  A model of the core of Market Mirror, a dashboard of market data: the insight
  aggregator and the alert detector of \<open>App.tsx\<close>, and the cache, the synthetic record
  generators and the stock fetch method of \<open>services/marketDataService.ts\<close>.  The definitions
  come first, in the order numbers, data, aggregator, detector, cache, dates, generators,
  fetch methods; the properties follow, each claim under its number.
\<close>

section \<open>JavaScript numbers\<close>

text \<open>
  Every number of the program is an IEEE 754 binary64 value.  A finite value is kept as the
  rational it denotes; \<open>Fin 0\<close> is the positive zero and \<open>NegZero\<close> the negative one.
  An arithmetic operation computes the exact rational result and rounds it to the nearest
  binary64 value, ties to the even significand (\<open>fl\<close>): 53 significant bits, the least
  exponent of a subnormal is \<open>-1074\<close>, and a rounded magnitude of \<open>2 ^ 1024\<close> or more
  overflows to an infinity.
\<close>

datatype jsnum = Fin rat | NegZero | PInf | NInf | NaN

fun blen :: "nat \<Rightarrow> nat" where
  "blen n = (if n = 0 then 0 else Suc (blen (n div 2)))"

declare blen.simps [simp del]

definition pow2 :: "int \<Rightarrow> rat" where
  "pow2 k = (if 0 \<le> k then 2 ^ nat k else 1 / 2 ^ nat (- k))"

text \<open>The binary exponent of a positive rational: \<open>pow2 (ilog2 q) \<le> q < pow2 (ilog2 q + 1)\<close>.\<close>

definition ilog2 :: "rat \<Rightarrow> int" where
  "ilog2 q = (if 1 \<le> q then int (blen (nat \<lfloor>q\<rfloor>)) - 1
              else - int (blen (nat (\<lceil>1 / q\<rceil> - 1))))"

definition round_even :: "rat \<Rightarrow> int" where
  "round_even q =
     (if q - of_int \<lfloor>q\<rfloor> < 1 / 2 then \<lfloor>q\<rfloor>
      else if 1 / 2 < q - of_int \<lfloor>q\<rfloor> then \<lfloor>q\<rfloor> + 1
      else if even \<lfloor>q\<rfloor> then \<lfloor>q\<rfloor> else \<lfloor>q\<rfloor> + 1)"

text \<open>The exponent of the last place of a positive magnitude, and rounding to that place.\<close>

definition quantum :: "rat \<Rightarrow> int" where
  "quantum a = max (ilog2 a - 52) (- 1074)"

definition round_at :: "int \<Rightarrow> rat \<Rightarrow> rat" where
  "round_at p a = of_int (round_even (a / pow2 p)) * pow2 p"

definition pack :: "bool \<Rightarrow> rat \<Rightarrow> jsnum" where
  "pack pos r =
     (if pow2 1024 \<le> r then (if pos then PInf else NInf)
      else if r = 0 then (if pos then Fin 0 else NegZero)
      else Fin (if pos then r else - r))"

definition fl :: "rat \<Rightarrow> jsnum" where
  "fl q = (if q = 0 then Fin 0 else pack (0 < q) (round_at (quantum \<bar>q\<bar>) \<bar>q\<bar>))"

definition is_nan :: "jsnum \<Rightarrow> bool" where
  "is_nan x = (case x of NaN \<Rightarrow> True | _ \<Rightarrow> False)"

definition is_inf :: "jsnum \<Rightarrow> bool" where
  "is_inf x = (case x of PInf \<Rightarrow> True | NInf \<Rightarrow> True | _ \<Rightarrow> False)"

definition is_zero :: "jsnum \<Rightarrow> bool" where
  "is_zero x = (case x of Fin q \<Rightarrow> q = 0 | NegZero \<Rightarrow> True | _ \<Rightarrow> False)"

text \<open>The sign bit.\<close>

definition is_neg :: "jsnum \<Rightarrow> bool" where
  "is_neg x = (case x of Fin q \<Rightarrow> q < 0 | NegZero \<Rightarrow> True | NInf \<Rightarrow> True | _ \<Rightarrow> False)"

definition signed_inf :: "bool \<Rightarrow> jsnum" where
  "signed_inf s = (if s then NInf else PInf)"

definition signed_zero :: "bool \<Rightarrow> jsnum" where
  "signed_zero s = (if s then NegZero else Fin 0)"

text \<open>The rational a finite value denotes (both zeros denote 0).\<close>

definition rat_of :: "jsnum \<Rightarrow> rat" where
  "rat_of x = (case x of Fin q \<Rightarrow> q | _ \<Rightarrow> 0)"

fun jadd :: "jsnum \<Rightarrow> jsnum \<Rightarrow> jsnum" where
  "jadd NaN _ = NaN"
| "jadd _ NaN = NaN"
| "jadd PInf NInf = NaN"
| "jadd NInf PInf = NaN"
| "jadd PInf _ = PInf"
| "jadd _ PInf = PInf"
| "jadd NInf _ = NInf"
| "jadd _ NInf = NInf"
| "jadd NegZero y = y"
| "jadd x NegZero = x"
| "jadd (Fin a) (Fin b) = (if a + b = 0 then Fin 0 else fl (a + b))"

fun jneg :: "jsnum \<Rightarrow> jsnum" where
  "jneg (Fin a) = (if a = 0 then NegZero else Fin (- a))"
| "jneg NegZero = Fin 0"
| "jneg PInf = NInf"
| "jneg NInf = PInf"
| "jneg NaN = NaN"

definition jsub :: "jsnum \<Rightarrow> jsnum \<Rightarrow> jsnum" where
  "jsub x y = jadd x (jneg y)"

definition jmul :: "jsnum \<Rightarrow> jsnum \<Rightarrow> jsnum" where
  "jmul x y =
     (if is_nan x \<or> is_nan y then NaN
      else if (is_inf x \<and> is_zero y) \<or> (is_zero x \<and> is_inf y) then NaN
      else if is_inf x \<or> is_inf y then signed_inf (is_neg x \<noteq> is_neg y)
      else if is_zero x \<or> is_zero y then signed_zero (is_neg x \<noteq> is_neg y)
      else fl (rat_of x * rat_of y))"

definition jdiv :: "jsnum \<Rightarrow> jsnum \<Rightarrow> jsnum" where
  "jdiv x y =
     (if is_nan x \<or> is_nan y then NaN
      else if (is_inf x \<and> is_inf y) \<or> (is_zero x \<and> is_zero y) then NaN
      else if is_inf x \<or> is_zero y then signed_inf (is_neg x \<noteq> is_neg y)
      else if is_inf y \<or> is_zero x then signed_zero (is_neg x \<noteq> is_neg y)
      else fl (rat_of x / rat_of y))"

text \<open>\<open>Math.abs\<close>.\<close>

fun jabs :: "jsnum \<Rightarrow> jsnum" where
  "jabs (Fin a) = Fin \<bar>a\<bar>"
| "jabs NegZero = Fin 0"
| "jabs PInf = PInf"
| "jabs NInf = PInf"
| "jabs NaN = NaN"

text \<open>
  The comparisons \<open><\<close> and \<open>>\<close>: false as soon as an operand is \<open>NaN\<close>; the two zeros
  compare equal.
\<close>

fun jlt :: "jsnum \<Rightarrow> jsnum \<Rightarrow> bool" where
  "jlt NaN _ = False"
| "jlt _ NaN = False"
| "jlt PInf _ = False"
| "jlt _ NInf = False"
| "jlt NInf _ = True"
| "jlt _ PInf = True"
| "jlt x y = (rat_of x < rat_of y)"

definition jgt :: "jsnum \<Rightarrow> jsnum \<Rightarrow> bool" where
  "jgt x y = jlt y x"

text \<open>\<open>>=\<close> and \<open><=\<close>, used to state bounds: again false on \<open>NaN\<close>.\<close>

definition jle :: "jsnum \<Rightarrow> jsnum \<Rightarrow> bool" where
  "jle x y = (\<not> is_nan x \<and> \<not> is_nan y \<and> \<not> jlt y x)"

text \<open>\<open>Math.max\<close> of two arguments: \<open>NaN\<close> if either is, and \<open>+0\<close> is larger than \<open>-0\<close>.\<close>

definition jmax :: "jsnum \<Rightarrow> jsnum \<Rightarrow> jsnum" where
  "jmax x y =
     (if is_nan x \<or> is_nan y then NaN
      else if jlt x y then y
      else if jlt y x then x
      else if is_neg x then y else x)"

text \<open>\<open>Math.floor\<close>.\<close>

fun jfloor :: "jsnum \<Rightarrow> jsnum" where
  "jfloor (Fin a) = Fin (of_int \<lfloor>a\<rfloor>)"
| "jfloor x = x"

text \<open>Truthiness of a number, as \<open>||\<close> and \<open>?:\<close> test it: \<open>NaN\<close> and the zeros are falsy.\<close>

definition truthy :: "jsnum \<Rightarrow> bool" where
  "truthy x = (\<not> is_nan x \<and> \<not> is_zero x)"

subsection \<open>Numbers as text\<close>

definition digit_char :: "nat \<Rightarrow> char" where
  "digit_char d = ''0123456789'' ! d"

fun digits_of :: "nat \<Rightarrow> string" where
  "digits_of n = (if n < 10 then [digit_char n] else digits_of (n div 10) @ [digit_char (n mod 10)])"

declare digits_of.simps [simp del]

text \<open>An integer in a template literal.\<close>

definition show_int :: "int \<Rightarrow> string" where
  "show_int i = (if i < 0 then ''-'' @ digits_of (nat (- i)) else digits_of (nat i))"

definition pad_left :: "nat \<Rightarrow> string \<Rightarrow> string" where
  "pad_left n s = replicate (n - length s) CHR ''0'' @ s"

text \<open>
  \<open>Number.prototype.toFixed\<close> with \<open>f\<close> fraction digits, for a magnitude below \<open>10 ^ 21\<close>:
  the integer \<open>n\<close> nearest to \<open>x * 10 ^ f\<close> (the larger one on a tie), printed with a point
  before its last \<open>f\<close> digits.
\<close>

definition point_at :: "nat \<Rightarrow> string \<Rightarrow> string" where
  "point_at f m = (if f = 0 then m else take (length m - f) m @ ''.'' @ drop (length m - f) m)"

definition fixed_digits :: "nat \<Rightarrow> rat \<Rightarrow> string" where
  "fixed_digits f a = point_at f (pad_left (f + 1) (digits_of (nat \<lfloor>a * 10 ^ f + 1 / 2\<rfloor>)))"

text \<open>
  At \<open>10 ^ 21\<close> and above \<open>toFixed\<close> falls back on the number's own string: the shortest
  decimal significand \<open>s\<close> (of \<open>k\<close> digits, at most 17) such that \<open>s * 10 ^ (n - k)\<close> rounds
  to the number, the nearest such on a choice (the even one on a tie), in exponent notation.
\<close>

definition exp_cands :: "rat \<Rightarrow> nat \<Rightarrow> nat \<Rightarrow> (nat \<times> nat) list" where
  "exp_cands a k n =
     (let c = nat \<lfloor>a / 10 ^ (n - k)\<rfloor>
      in filter (\<lambda>(s, n'). 10 ^ (k - 1) \<le> s \<and> s < 10 ^ k \<and> fl (of_nat s * 10 ^ (n' - k)) = Fin a)
           [(c, n), (c + 1, n)])"

fun first_cands :: "rat \<Rightarrow> nat \<Rightarrow> nat list \<Rightarrow> (nat \<times> nat \<times> nat) list" where
  "first_cands a d [] = []"
| "first_cands a d (k # ks) =
     (let cs = exp_cands a k d @ exp_cands a k (d + 1)
      in if cs = [] then first_cands a d ks else map (\<lambda>(s, n). (s, n, k)) cs)"

definition closer :: "rat \<Rightarrow> nat \<times> nat \<times> nat \<Rightarrow> nat \<times> nat \<times> nat \<Rightarrow> nat \<times> nat \<times> nat" where
  "closer a c1 c2 =
     (let dist = (\<lambda>(s, n, k). \<bar>of_nat s * 10 ^ (n - k) - a\<bar>)
      in if dist c2 < dist c1 \<or> (dist c2 = dist c1 \<and> even (fst c2)) then c2 else c1)"

definition show_exp :: "rat \<Rightarrow> string" where
  "show_exp a =
     (case first_cands a (length (digits_of (nat \<lfloor>a\<rfloor>))) [1 ..< 18] of
        [] \<Rightarrow> []
      | c # cs \<Rightarrow>
          (let (s, n, k) = foldl (closer a) c cs; ds = digits_of s
           in (if k = 1 then ds else hd ds # ''.'' @ tl ds) @ ''e+'' @ digits_of (n - 1)))"

definition toFixed :: "nat \<Rightarrow> jsnum \<Rightarrow> string" where
  "toFixed f x =
     (case x of
        NaN \<Rightarrow> ''NaN''
      | PInf \<Rightarrow> ''Infinity''
      | NInf \<Rightarrow> ''-Infinity''
      | NegZero \<Rightarrow> fixed_digits f 0
      | Fin q \<Rightarrow>
          (if q < 0 then ''-'' else []) @
          (if 10 ^ 21 \<le> \<bar>q\<bar> then show_exp \<bar>q\<bar> else fixed_digits f \<bar>q\<bar>))"

section \<open>The data model\<close>

text \<open>
  \<open>RealTimeMarketData\<close> of \<open>services/marketDataService.ts\<close> and the entries of its
  \<open>history\<close>.  \<open>marketCap\<close> is optional in the interface; \<open>name\<close> is \<open>None\<close> where the code
  stores \<open>undefined\<close> (a lookup that finds an object without a name, see below).
\<close>

record HistoryPoint =
  date :: string
  price_h :: jsnum
  volume_h :: jsnum

record RealTimeMarketData =
  symbol :: string
  name :: "string option"
  price :: jsnum
  change :: jsnum
  changePercent :: jsnum
  volume :: jsnum
  high24h :: jsnum
  low24h :: jsnum
  marketCap :: "jsnum option"
  timestamp :: string
  history :: "HistoryPoint list"

text \<open>\<open>Alert\<close> and \<open>AIInsight\<close> of \<open>App.tsx\<close>.\<close>

datatype AlertType = Warning | Info | Success | Error

record Alert =
  id_alert :: string
  message :: string
  type_alert :: AlertType
  timestamp_alert :: string

datatype TrendDirection = Bullish | Bearish | Neutral

record AIInsight =
  summary :: string
  recommendations :: "string list"
  volatilityAnalysis :: string
  trendDirection :: TrendDirection

text \<open>
  The payload of the equity provider, as \<open>fetchStockData\<close> reads it:
  \<open>chart.result[0]\<close>, with the fields of \<open>meta\<close> the code reads,
  \<open>timestamp\<close> (seconds) and \<open>indicators.quote[0].close\<close> and \<open>.volume\<close>, whose entries may be
  \<open>null\<close>.
\<close>

record YahooResult =
  regularMarketPrice :: jsnum
  previousClose :: jsnum
  regularMarketVolume :: "jsnum option"
  regularMarketDayHigh :: jsnum
  regularMarketDayLow :: jsnum
  longName :: "string option"
  marketCap_y :: "jsnum option"
  timestamp_y :: "int list"
  close_y :: "jsnum option list"
  volume_y :: "jsnum option list"

text \<open>
  What one invocation of a function below reads from outside the program: \<open>clock w k\<close> is
  the result of its \<open>k\<close>-th clock read, counted from 0 (\<open>Date.now()\<close> or \<open>new Date()\<close>,
  milliseconds since the epoch, a time value of the host's clock and so months inside the
  range of \<open>Date\<close>), \<open>random w k\<close> the result of its \<open>k\<close>-th \<open>Math.random()\<close>, \<open>tza_utc\<close> and
  \<open>tza_local\<close> the offset of local time from UTC, in milliseconds, at a UTC instant and at
  a local time, \<open>toLocaleTimeString\<close> the host's function of this name.  The answers of
  the equity provider are inputs as well: \<open>None\<close> stands for a failed request, a status
  that is not ok or a payload the code cannot read.  The requests of one invocation of
  \<open>fetchStockData\<close> are in flight together and their answers arrive in an order the
  program does not choose: \<open>finish_rank w i\<close> is the number of callbacks that have read
  the clock before the callback of the \<open>i\<close>-th symbol does, and \<open>finished_before_catch w\<close>
  the number of callbacks that have read the clock when the \<open>catch\<close> block runs (some of
  those that succeed; the others finish after it).  The request URLs are outputs and are
  not modelled.
\<close>

record world =
  clock :: "nat \<Rightarrow> int"
  random :: "nat \<Rightarrow> jsnum"
  tza_utc :: "int \<Rightarrow> int"
  tza_local :: "int \<Rightarrow> int"
  toLocaleTimeString :: "int \<Rightarrow> string"
  yahoo_response :: "string \<Rightarrow> YahooResult option"
  finish_rank :: "nat \<Rightarrow> nat"
  finished_before_catch :: nat

section \<open>The insight aggregator\<close>

text \<open>
  \<open>generateAIInsights\<close> of \<open>App.tsx\<close>.  Its local constants \<open>avgChange\<close>, \<open>volatility\<close> and
  \<open>trendDirection\<close> are functions of the batch here; \<open>reduce\<close> with the initial value 0 is a
  left fold.
\<close>

definition avgChange :: "RealTimeMarketData list \<Rightarrow> jsnum" where
  "avgChange data =
     jdiv (foldl (\<lambda>sum item. jadd sum (changePercent item)) (Fin 0) data)
          (Fin (of_nat (length data)))"

definition volatility :: "RealTimeMarketData list \<Rightarrow> jsnum" where
  "volatility data =
     jdiv (foldl (\<lambda>sum item. jadd sum (jabs (changePercent item))) (Fin 0) data)
          (Fin (of_nat (length data)))"

definition trend_of :: "jsnum \<Rightarrow> TrendDirection" where
  "trend_of avg =
     (if jgt avg (Fin 2) then Bullish else if jlt avg (Fin (- 2)) then Bearish else Neutral)"

definition generateAIInsights :: "RealTimeMarketData list \<Rightarrow> AIInsight" where
  "generateAIInsights data =
     \<lparr> summary =
         ''Real-time analysis of '' @ show_int (int (length data)) @
         '' assets. Average change: '' @ toFixed 2 (avgChange data) @ ''%. '' @
         (if trend_of (avgChange data) = Bullish then ''Strong upward momentum observed.''
          else if trend_of (avgChange data) = Bearish then ''Downward pressure detected.''
          else ''Sideways movement with mixed signals.''),
       recommendations =
         [if jgt (avgChange data) (Fin 5) then ''Consider taking profits on strong performers''
          else ''Hold current positions'',
          if jgt (volatility data) (Fin 10) then ''High volatility detected - use caution''
          else ''Stable conditions for entry'',
          if trend_of (avgChange data) = Bullish then ''Look for dip-buying opportunities''
          else ''Consider defensive positioning''],
       volatilityAnalysis =
         ''Current volatility: '' @ toFixed 1 (volatility data) @ ''% - '' @
         (if jgt (volatility data) (Fin 15) then ''High''
          else if jgt (volatility data) (Fin 8) then ''Moderate'' else ''Low''),
       trendDirection = trend_of (avgChange data) \<rparr>"

text \<open>
  A run of the sum in which no addition rounds: from the partial sum \<open>s\<close>, adding each of
  \<open>qs\<close> in turn gives the exact sum.
\<close>

fun exact_sums :: "rat \<Rightarrow> rat list \<Rightarrow> bool" where
  "exact_sums s [] = True"
| "exact_sums s (q # qs) = (jadd (Fin s) (Fin q) = Fin (s + q) \<and> exact_sums (s + q) qs)"

section \<open>The alert detector\<close>

text \<open>
  \<open>checkAlerts\<close> of \<open>App.tsx\<close>.  The \<open>forEach\<close> loop pushes one alert for each record over
  the threshold; every pushed alert reads the clock twice, for its id and for its
  timestamp, so \<open>k\<close> counts the clock reads made so far.
\<close>

definition mkAlert :: "world \<Rightarrow> nat \<Rightarrow> RealTimeMarketData \<Rightarrow> Alert" where
  "mkAlert w k item =
     \<lparr> id_alert = symbol item @ ''-'' @ show_int (clock w k),
       message =
         symbol item @ '' '' @
         (if jgt (changePercent item) (Fin 0) then ''surged'' else ''dropped'') @ '' '' @
         toFixed 1 (jabs (changePercent item)) @ ''% in the last period'',
       type_alert = (if jgt (changePercent item) (Fin 0) then Success else Warning),
       timestamp_alert = toLocaleTimeString w (clock w (k + 1)) \<rparr>"

fun collectAlerts :: "world \<Rightarrow> jsnum \<Rightarrow> nat \<Rightarrow> RealTimeMarketData list \<Rightarrow> Alert list" where
  "collectAlerts w alertThreshold k [] = []"
| "collectAlerts w alertThreshold k (item # rest) =
     (if jgt (jabs (changePercent item)) alertThreshold
      then mkAlert w k item # collectAlerts w alertThreshold (k + 2) rest
      else collectAlerts w alertThreshold k rest)"

definition newAlerts :: "world \<Rightarrow> jsnum \<Rightarrow> RealTimeMarketData list \<Rightarrow> Alert list" where
  "newAlerts w alertThreshold data = collectAlerts w alertThreshold 0 data"

text \<open>\<open>xs.slice(-10)\<close>: the last ten elements, all of them when there are fewer.\<close>

definition slice_last10 :: "'a list \<Rightarrow> 'a list" where
  "slice_last10 xs = drop (length xs - 10) xs"

text \<open>The state update: from the feed \<open>alerts\<close> to the feed after the invocation.\<close>

definition checkAlerts :: "world \<Rightarrow> jsnum \<Rightarrow> Alert list \<Rightarrow> RealTimeMarketData list \<Rightarrow> Alert list" where
  "checkAlerts w alertThreshold alerts data =
     (if length (newAlerts w alertThreshold data) > 0
      then slice_last10 (alerts @ newAlerts w alertThreshold data)
      else alerts)"

text \<open>The feeds the application can hold: it starts empty and only \<open>checkAlerts\<close> changes it.\<close>

inductive feed_reachable :: "Alert list \<Rightarrow> bool" where
  start: "feed_reachable []"
| step: "feed_reachable alerts \<Longrightarrow> feed_reachable (checkAlerts w alertThreshold alerts data)"

section \<open>The cache\<close>

text \<open>
  The \<open>cache\<close> map of \<open>MarketDataService\<close>, \<open>isValidCache\<close>, and the two idioms its fetch
  methods use: return the stored batch when the entry is valid, and store a batch with
  the current time.  \<open>now\<close> is the value \<open>Date.now()\<close> returns.
\<close>

record CacheEntry =
  data_c :: "RealTimeMarketData list"
  timestamp_c :: int

type_synonym cache = "string \<rightharpoonup> CacheEntry"

definition CACHE_DURATION :: int where
  "CACHE_DURATION = 60000"

definition isValidCache :: "int \<Rightarrow> cache \<Rightarrow> string \<Rightarrow> bool" where
  "isValidCache now c key =
     (case c key of None \<Rightarrow> False | Some cached \<Rightarrow> now - timestamp_c cached < CACHE_DURATION)"

definition cache_get :: "int \<Rightarrow> cache \<Rightarrow> string \<Rightarrow> RealTimeMarketData list option" where
  "cache_get now c key = (if isValidCache now c key then map_option data_c (c key) else None)"

definition cache_put :: "int \<Rightarrow> cache \<Rightarrow> string \<Rightarrow> RealTimeMarketData list \<Rightarrow> cache" where
  "cache_put now c key batch = c(key \<mapsto> \<lparr> data_c = batch, timestamp_c = now \<rparr>)"

definition clearCache :: "cache \<Rightarrow> cache" where
  "clearCache c = Map.empty"

section \<open>Dates\<close>

text \<open>
  A \<open>Date\<close> is its time value, the milliseconds since the epoch in UTC.  \<open>iso_string\<close> is
  \<open>toISOString\<close> and \<open>iso_day\<close> its part before the \<open>T\<close>: the proleptic Gregorian date of
  the day number \<open>t div msPerDay\<close>, the year with four digits, or with a sign and six
  digits outside 0 to 9999.
\<close>

definition msPerDay :: int where
  "msPerDay = 86400000"

definition doe :: "int \<Rightarrow> int" where
  "doe d = (d + 719468) mod 146097"

definition yoe :: "int \<Rightarrow> int" where
  "yoe d = (doe d - doe d div 1460 + doe d div 36524 - doe d div 146096) div 365"

definition doy :: "int \<Rightarrow> int" where
  "doy d = doe d - (365 * yoe d + yoe d div 4 - yoe d div 100)"

definition mp :: "int \<Rightarrow> int" where
  "mp d = (5 * doy d + 2) div 153"

definition day_of :: "int \<Rightarrow> int" where
  "day_of d = doy d - (153 * mp d + 2) div 5 + 1"

definition month_of :: "int \<Rightarrow> int" where
  "month_of d = (if mp d < 10 then mp d + 3 else mp d - 9)"

definition year_of :: "int \<Rightarrow> int" where
  "year_of d = yoe d + (d + 719468) div 146097 * 400 + (if month_of d \<le> 2 then 1 else 0)"

definition year_text :: "int \<Rightarrow> string" where
  "year_text y =
     (if 0 \<le> y \<and> y \<le> 9999 then pad_left 4 (digits_of (nat y))
      else (if y < 0 then ''-'' else ''+'') @ pad_left 6 (digits_of (nat \<bar>y\<bar>)))"

definition two_digits :: "int \<Rightarrow> string" where
  "two_digits n = pad_left 2 (digits_of (nat n))"

definition iso_date :: "int \<Rightarrow> string" where
  "iso_date d = year_text (year_of d) @ ''-'' @ two_digits (month_of d) @ ''-'' @ two_digits (day_of d)"

definition iso_day :: "int \<Rightarrow> string" where
  "iso_day t = iso_date (t div msPerDay)"

definition iso_string :: "int \<Rightarrow> string" where
  "iso_string t =
     iso_day t @ ''T'' @ two_digits (t mod msPerDay div 3600000) @ '':'' @
     two_digits (t mod 3600000 div 60000) @ '':'' @ two_digits (t mod 60000 div 1000) @ ''.'' @
     pad_left 3 (digits_of (nat (t mod 1000))) @ ''Z''"

text \<open>
  \<open>date.setDate(date.getDate() - i)\<close> on a date of time value \<open>t\<close>: the local time
  \<open>t + tza_utc t\<close> keeps its time within the day and moves back \<open>i\<close> days, and the result
  is read back as a UTC instant with the offset in force at that local time.
\<close>

definition days_back :: "world \<Rightarrow> int \<Rightarrow> nat \<Rightarrow> int" where
  "days_back w t i =
     t + tza_utc w t - int i * msPerDay - tza_local w (t + tza_utc w t - int i * msPerDay)"

text \<open>A time value \<open>toISOString\<close> accepts; it throws a \<open>RangeError\<close> on any other.\<close>

definition valid_time :: "int \<Rightarrow> bool" where
  "valid_time t = (\<bar>t\<bar> \<le> 8640000000000000)"

section \<open>Synthetic records\<close>

text \<open>
  The price tables are object literals read with \<open>currentPrices[symbol] || default\<close>.  A key
  of the literal yields its entry; a name that \<open>Object.prototype\<close> defines yields the
  inherited value, which is truthy and has no \<open>price\<close> and no \<open>marketCap\<close> (every use of the
  missing price is arithmetic, where \<open>undefined\<close> is \<open>NaN\<close>) and whose \<open>name\<close> is the name of
  the inherited function, or nothing for the prototype object itself; any other key
  yields the default.
\<close>

record BaseData =
  price_b :: jsnum
  name_b :: "string option"
  marketCap_b :: "jsnum option"

definition object_prototype_names :: "(string \<times> string option) list" where
  "object_prototype_names =
     [(''constructor'', Some ''Object''),
      (''__defineGetter__'', Some ''__defineGetter__''),
      (''__defineSetter__'', Some ''__defineSetter__''),
      (''hasOwnProperty'', Some ''hasOwnProperty''),
      (''__lookupGetter__'', Some ''__lookupGetter__''),
      (''__lookupSetter__'', Some ''__lookupSetter__''),
      (''isPrototypeOf'', Some ''isPrototypeOf''),
      (''propertyIsEnumerable'', Some ''propertyIsEnumerable''),
      (''toString'', Some ''toString''),
      (''valueOf'', Some ''valueOf''),
      (''__proto__'', None),
      (''toLocaleString'', Some ''toLocaleString'')]"

definition lookup_base :: "(string \<times> BaseData) list \<Rightarrow> BaseData \<Rightarrow> string \<Rightarrow> BaseData" where
  "lookup_base table dflt key =
     (case map_of table key of
        Some b \<Rightarrow> b
      | None \<Rightarrow>
          (case map_of object_prototype_names key of
             Some n \<Rightarrow> \<lparr> price_b = NaN, name_b = n, marketCap_b = None \<rparr>
           | None \<Rightarrow> dflt))"

definition entry :: "rat \<Rightarrow> string \<Rightarrow> rat \<Rightarrow> BaseData" where
  "entry p n c = \<lparr> price_b = fl p, name_b = Some n, marketCap_b = Some (fl c) \<rparr>"

definition product :: "rat \<Rightarrow> string \<Rightarrow> BaseData" where
  "product p n = \<lparr> price_b = fl p, name_b = Some n, marketCap_b = None \<rparr>"

text \<open>
  The state of a history loop: the points pushed so far, \<open>currentPrice\<close>, and the numbers of
  \<open>Math.random()\<close> calls and clock reads the invocation has made.
\<close>

record gen_state =
  hist :: "HistoryPoint list"
  cur :: jsnum
  nr :: nat
  nc :: nat

text \<open>\<open>for (let i = n - 1; i >= 0; i--) body\<close>.\<close>

fun for_down :: "(nat \<Rightarrow> 's \<Rightarrow> 's) \<Rightarrow> nat \<Rightarrow> 's \<Rightarrow> 's" where
  "for_down body 0 s = s"
| "for_down body (Suc i) s = for_down body i (body i s)"

text \<open>\<open>symbols.map(callback)\<close>, the callbacks sharing the two counters.\<close>

fun map_gen :: "('a \<Rightarrow> nat \<Rightarrow> nat \<Rightarrow> 'b \<times> nat \<times> nat) \<Rightarrow> 'a list \<Rightarrow> nat \<Rightarrow> nat \<Rightarrow> 'b list" where
  "map_gen f [] kr kc = []"
| "map_gen f (x # xs) kr kc =
     (case f x kr kc of (r, kr', kc') \<Rightarrow> r # map_gen f xs kr' kc')"

text \<open>\<open>(Math.random() - 0.5) * spread\<close> and \<open>Math.floor(Math.random() * width) + least\<close>.\<close>

definition centred :: "jsnum \<Rightarrow> jsnum \<Rightarrow> jsnum" where
  "centred r spread = jmul (jsub r (Fin (1 / 2))) spread"

definition random_int :: "jsnum \<Rightarrow> rat \<Rightarrow> rat \<Rightarrow> jsnum" where
  "random_int r width least = jadd (jfloor (jmul r (fl width))) (fl least)"

subsection \<open>\<open>getFallbackStockData\<close>\<close>

definition stockPrices :: "(string \<times> BaseData) list" where
  "stockPrices =
     [(''AAPL'', entry (21325 / 100) ''Apple Inc.'' 3200000000000),
      (''GOOGL'', entry (17580 / 100) ''Alphabet Inc.'' 2100000000000),
      (''MSFT'', entry (42515 / 100) ''Microsoft Corporation'' 3100000000000),
      (''TSLA'', entry (24850 / 100) ''Tesla Inc.'' 780000000000),
      (''AMZN'', entry (18675 / 100) ''Amazon.com Inc.'' 1900000000000),
      (''NVDA'', entry (87530 / 100) ''NVIDIA Corporation'' 2200000000000),
      (''META'', entry (48520 / 100) ''Meta Platforms Inc.'' 1200000000000)]"

definition stockBase :: "string \<Rightarrow> BaseData" where
  "stockBase smb = lookup_base stockPrices (entry 100 (smb @ '' Inc.'') 50000000000) smb"

definition stockDay :: "world \<Rightarrow> nat \<Rightarrow> gen_state \<Rightarrow> gen_state" where
  "stockDay w i s =
     \<lparr> hist = hist s @
         [\<lparr> date = iso_day (days_back w (clock w (nc s)) i),
            price_h = jmul (cur s) (jadd (Fin 1) (centred (random w (nr s)) (fl (4 / 100)))),
            volume_h = random_int (random w (nr s + 1)) 100000000 10000000 \<rparr>],
       cur = jmul (cur s) (jadd (Fin 1) (centred (random w (nr s)) (fl (4 / 100)))),
       nr = nr s + 2,
       nc = nc s + 1 \<rparr>"

definition stockLoop :: "world \<Rightarrow> string \<Rightarrow> nat \<Rightarrow> nat \<Rightarrow> gen_state" where
  "stockLoop w smb kr kc =
     for_down (stockDay w) 30 \<lparr> hist = [], cur = price_b (stockBase smb), nr = kr + 1, nc = kc \<rparr>"

definition stockChange :: "world \<Rightarrow> string \<Rightarrow> nat \<Rightarrow> jsnum" where
  "stockChange w smb kr = jmul (price_b (stockBase smb)) (centred (random w kr) (fl (6 / 100)))"

definition fallbackStock :: "world \<Rightarrow> string \<Rightarrow> nat \<Rightarrow> nat \<Rightarrow> RealTimeMarketData \<times> nat \<times> nat" where
  "fallbackStock w smb kr kc =
     (\<lparr> symbol = smb,
        name = name_b (stockBase smb),
        price = jadd (price_b (stockBase smb)) (stockChange w smb kr),
        change = stockChange w smb kr,
        changePercent = jmul (jdiv (stockChange w smb kr) (price_b (stockBase smb))) (Fin 100),
        volume = random_int (random w (nr (stockLoop w smb kr kc))) 100000000 20000000,
        high24h = jmul (price_b (stockBase smb)) (fl (103 / 100)),
        low24h = jmul (price_b (stockBase smb)) (fl (97 / 100)),
        marketCap = marketCap_b (stockBase smb),
        timestamp = iso_string (clock w (nc (stockLoop w smb kr kc))),
        history = hist (stockLoop w smb kr kc) \<rparr>,
      nr (stockLoop w smb kr kc) + 1,
      nc (stockLoop w smb kr kc) + 1)"

text \<open>\<open>kc\<close> is the number of clock reads the calling fetch method has made already.\<close>

definition getFallbackStockData :: "world \<Rightarrow> string list \<Rightarrow> nat \<Rightarrow> RealTimeMarketData list" where
  "getFallbackStockData w symbols kc = map_gen (fallbackStock w) symbols 0 kc"

subsection \<open>\<open>getFallbackCryptoData\<close>\<close>

definition cryptoPrices :: "(string \<times> BaseData) list" where
  "cryptoPrices =
     [(''BTC'', entry 67500 ''Bitcoin'' 1300000000000),
      (''ETH'', entry 3850 ''Ethereum'' 460000000000),
      (''SOL'', entry 195 ''Solana'' 85000000000),
      (''ADA'', entry (62 / 100) ''Cardano'' 22000000000),
      (''DOT'', entry (845 / 100) ''Polkadot'' 12000000000),
      (''LINK'', entry (1875 / 100) ''Chainlink'' 11000000000),
      (''UNI'', entry (1230 / 100) ''Uniswap'' 9000000000),
      (''AVAX'', entry (4280 / 100) ''Avalanche'' 16000000000)]"

definition cryptoBase :: "string \<Rightarrow> BaseData" where
  "cryptoBase smb = lookup_base cryptoPrices (entry 1 (smb @ '' Token'') 1000000000) smb"

definition cryptoDay :: "world \<Rightarrow> nat \<Rightarrow> gen_state \<Rightarrow> gen_state" where
  "cryptoDay w i s =
     \<lparr> hist = hist s @
         [\<lparr> date = iso_day (days_back w (clock w (nc s)) i),
            price_h = jmul (cur s) (jadd (Fin 1) (centred (random w (nr s)) (fl (8 / 100)))),
            volume_h = random_int (random w (nr s + 1)) 2000000000 100000000 \<rparr>],
       cur = jmul (cur s) (jadd (Fin 1) (centred (random w (nr s)) (fl (8 / 100)))),
       nr = nr s + 2,
       nc = nc s + 1 \<rparr>"

definition cryptoLoop :: "world \<Rightarrow> string \<Rightarrow> nat \<Rightarrow> nat \<Rightarrow> gen_state" where
  "cryptoLoop w smb kr kc =
     for_down (cryptoDay w) 30 \<lparr> hist = [], cur = price_b (cryptoBase smb), nr = kr + 1, nc = kc \<rparr>"

definition cryptoChange :: "world \<Rightarrow> string \<Rightarrow> nat \<Rightarrow> jsnum" where
  "cryptoChange w smb kr = jmul (price_b (cryptoBase smb)) (centred (random w kr) (fl (15 / 100)))"

definition fallbackCrypto :: "world \<Rightarrow> string \<Rightarrow> nat \<Rightarrow> nat \<Rightarrow> RealTimeMarketData \<times> nat \<times> nat" where
  "fallbackCrypto w smb kr kc =
     (\<lparr> symbol = smb,
        name = name_b (cryptoBase smb),
        price = jadd (price_b (cryptoBase smb)) (cryptoChange w smb kr),
        change = cryptoChange w smb kr,
        changePercent = jmul (jdiv (cryptoChange w smb kr) (price_b (cryptoBase smb))) (Fin 100),
        volume = random_int (random w (nr (cryptoLoop w smb kr kc))) 2000000000 500000000,
        high24h = jmul (price_b (cryptoBase smb)) (fl (108 / 100)),
        low24h = jmul (price_b (cryptoBase smb)) (fl (92 / 100)),
        marketCap = marketCap_b (cryptoBase smb),
        timestamp = iso_string (clock w (nc (cryptoLoop w smb kr kc))),
        history = hist (cryptoLoop w smb kr kc) \<rparr>,
      nr (cryptoLoop w smb kr kc) + 1,
      nc (cryptoLoop w smb kr kc) + 1)"

definition getFallbackCryptoData :: "world \<Rightarrow> string list \<Rightarrow> nat \<Rightarrow> RealTimeMarketData list" where
  "getFallbackCryptoData w symbols kc = map_gen (fallbackCrypto w) symbols 0 kc"

subsection \<open>\<open>fetchEcommerceData\<close>\<close>

definition productPrices :: "(string \<times> BaseData) list" where
  "productPrices =
     [(''iPhone15'', product 999 ''iPhone 15 Pro''),
      (''AirPods'', product 249 ''AirPods Pro (2nd Gen)''),
      (''MacBook'', product 1299 ''MacBook Air M3''),
      (''iPad'', product 799 (''iPad Pro 11'' @ [CHR 0x22])),
      (''Watch'', product 799 ''Apple Watch Ultra 2''),
      (''PS5'', product 499 ''PlayStation 5''),
      (''Switch'', product 299 ''Nintendo Switch OLED''),
      (''XBox'', product 499 ''Xbox Series X'')]"

definition productBase :: "string \<Rightarrow> BaseData" where
  "productBase productId = lookup_base productPrices (product 99 (''Product '' @ productId)) productId"

text \<open>
  The day's price move: with the first draw below 0.05 a second draw chooses between
  \<open>-0.1\<close> and \<open>0.05\<close>; otherwise it stays 0 and the second draw is not made.
\<close>

definition promoChange :: "world \<Rightarrow> nat \<Rightarrow> jsnum" where
  "promoChange w k =
     (if jlt (random w k) (fl (5 / 100))
      then (if jlt (random w (k + 1)) (fl (7 / 10)) then jneg (fl (1 / 10)) else fl (5 / 100))
      else Fin 0)"

definition promoDraws :: "world \<Rightarrow> nat \<Rightarrow> nat" where
  "promoDraws w k = (if jlt (random w k) (fl (5 / 100)) then 2 else 1)"

definition ecommerceDay :: "world \<Rightarrow> jsnum \<Rightarrow> nat \<Rightarrow> gen_state \<Rightarrow> gen_state" where
  "ecommerceDay w base i s =
     \<lparr> hist = hist s @
         [\<lparr> date = iso_day (days_back w (clock w (nc s)) i),
            price_h = jmax (jmul (cur s) (jadd (Fin 1) (promoChange w (nr s))))
                           (jmul base (fl (7 / 10))),
            volume_h = random_int (random w (nr s + promoDraws w (nr s))) 1000 50 \<rparr>],
       cur = jmul (cur s) (jadd (Fin 1) (promoChange w (nr s))),
       nr = nr s + promoDraws w (nr s) + 1,
       nc = nc s + 1 \<rparr>"

definition ecommerceLoop :: "world \<Rightarrow> string \<Rightarrow> nat \<Rightarrow> nat \<Rightarrow> gen_state" where
  "ecommerceLoop w productId kr kc =
     for_down (ecommerceDay w (price_b (productBase productId))) 30
       \<lparr> hist = [], cur = price_b (productBase productId), nr = kr + 1, nc = kc \<rparr>"

definition ecommerceChange :: "world \<Rightarrow> string \<Rightarrow> nat \<Rightarrow> jsnum" where
  "ecommerceChange w productId kr =
     jmul (price_b (productBase productId)) (centred (random w kr) (fl (1 / 10)))"

definition ecommerceRecord :: "world \<Rightarrow> string \<Rightarrow> nat \<Rightarrow> nat \<Rightarrow> RealTimeMarketData \<times> nat \<times> nat" where
  "ecommerceRecord w productId kr kc =
     (\<lparr> symbol = productId,
        name = name_b (productBase productId),
        price = jadd (price_b (productBase productId)) (ecommerceChange w productId kr),
        change = ecommerceChange w productId kr,
        changePercent =
          jmul (jdiv (ecommerceChange w productId kr) (price_b (productBase productId))) (Fin 100),
        volume = random_int (random w (nr (ecommerceLoop w productId kr kc))) 1000 100,
        high24h = jmul (price_b (productBase productId)) (fl (102 / 100)),
        low24h = jmul (price_b (productBase productId)) (fl (95 / 100)),
        marketCap = None,
        timestamp = iso_string (clock w (nc (ecommerceLoop w productId kr kc))),
        history = hist (ecommerceLoop w productId kr kc) \<rparr>,
      nr (ecommerceLoop w productId kr kc) + 1,
      nc (ecommerceLoop w productId kr kc) + 1)"

definition fetchEcommerceData :: "world \<Rightarrow> string list \<Rightarrow> RealTimeMarketData list" where
  "fetchEcommerceData w productIds = map_gen (ecommerceRecord w) productIds 0 0"

section \<open>The fetch methods\<close>

text \<open>
  \<open>xs.join(',')\<close>, \<open>xs.slice(-30)\<close>, \<open>x || d\<close> on a number that may be missing, and \<open>xs[i]\<close> on
  an array with holes, which is \<open>undefined\<close> outside the array.
\<close>

fun join_comma :: "string list \<Rightarrow> string" where
  "join_comma [] = []"
| "join_comma [x] = x"
| "join_comma (x # y # zs) = x @ '','' @ join_comma (y # zs)"

definition slice_last30 :: "'a list \<Rightarrow> 'a list" where
  "slice_last30 xs = drop (length xs - 30) xs"

definition or_num :: "jsnum option \<Rightarrow> jsnum \<Rightarrow> jsnum" where
  "or_num x d = (case x of Some v \<Rightarrow> if truthy v then v else d | None \<Rightarrow> d)"

definition at_index :: "'a option list \<Rightarrow> int \<Rightarrow> 'a option" where
  "at_index xs i = (if 0 \<le> i \<and> i < int (length xs) then xs ! nat i else None)"

subsection \<open>\<open>fetchStockData\<close>\<close>

definition yahooHistory :: "YahooResult \<Rightarrow> HistoryPoint list" where
  "yahooHistory r =
     map (\<lambda>(index, t).
            \<lparr> date = iso_day (t * 1000),
              price_h = or_num (at_index (close_y r) (int (length (close_y r)) - 30 + int index))
                               (regularMarketPrice r),
              volume_h = or_num (at_index (volume_y r) (int (length (volume_y r)) - 30 + int index))
                                (Fin 0) \<rparr>)
         (enumerate 0 (slice_last30 (timestamp_y r)))"

text \<open>
  The callback of \<open>symbols.map\<close>: \<open>None\<close> when it throws, on a failed request or a time
  \<open>toISOString\<close> rejects, in both cases before it reads the clock.  \<open>k\<close> is the index of
  the one clock read a callback that succeeds makes, for its \<open>timestamp\<close>.
\<close>

definition yahooRecord :: "world \<Rightarrow> nat \<Rightarrow> string \<Rightarrow> RealTimeMarketData option" where
  "yahooRecord w k smb =
     (case yahoo_response w smb of
        None \<Rightarrow> None
      | Some r \<Rightarrow>
          if list_ex (\<lambda>t. \<not> valid_time (t * 1000)) (slice_last30 (timestamp_y r)) then None
          else Some
            \<lparr> symbol = smb,
              name = Some (case longName r of None \<Rightarrow> smb | Some n \<Rightarrow> if n = [] then smb else n),
              price = regularMarketPrice r,
              change = jsub (regularMarketPrice r) (previousClose r),
              changePercent =
                jmul (jdiv (jsub (regularMarketPrice r) (previousClose r)) (previousClose r)) (Fin 100),
              volume = or_num (regularMarketVolume r) (Fin 0),
              high24h = regularMarketDayHigh r,
              low24h = regularMarketDayLow r,
              marketCap = marketCap_y r,
              timestamp = iso_string (clock w k),
              history = yahooHistory r \<rparr>)"

text \<open>
  \<open>isValidCache\<close> reads the clock only when the key has an entry, so \<open>cache_reads\<close> is the
  number of clock reads made before the requests.  When every callback succeeds, each has
  read the clock once, at its rank among them, before \<open>cache.set\<close> reads it.
  \<open>Promise.all\<close> fails as soon as one callback does, and the \<open>catch\<close> block then answers
  with the synthetic batch, which is not stored; its clock reads follow those of the
  callbacks that have finished by then.
\<close>

definition cache_reads :: "cache \<Rightarrow> string \<Rightarrow> nat" where
  "cache_reads c key = (case c key of None \<Rightarrow> 0 | Some _ \<Rightarrow> 1)"

definition stockKey :: "string list \<Rightarrow> string" where
  "stockKey symbols = ''stocks_'' @ join_comma symbols"

definition fetchStockData :: "world \<Rightarrow> cache \<Rightarrow> string list \<Rightarrow> RealTimeMarketData list \<times> cache" where
  "fetchStockData w c symbols =
     (case cache_get (clock w 0) c (stockKey symbols) of
        Some cached \<Rightarrow> (cached, c)
      | None \<Rightarrow>
          (case those (map (\<lambda>(i, smb). yahooRecord w (cache_reads c (stockKey symbols) + finish_rank w i) smb)
                           (enumerate 0 symbols)) of
             Some processedData \<Rightarrow>
               (processedData,
                cache_put (clock w (cache_reads c (stockKey symbols) + length symbols)) c
                  (stockKey symbols) processedData)
           | None \<Rightarrow>
               (getFallbackStockData w symbols
                  (cache_reads c (stockKey symbols) + finished_before_catch w), c)))"

subsection \<open>\<open>fetchCryptoData\<close>\<close>

text \<open>
  After the answer of the coin provider, \<open>fetchCryptoData\<close> builds its batch with
  \<open>data.map(coin => ({ ..., history: await this.fetchCryptoHistory(coin.id) }))\<close> (lines 83
  to 95 of \<open>marketDataService.ts\<close>): an \<open>await\<close> in an arrow function that is not \<open>async\<close>.
  These lines are not TypeScript a compiler accepts, so they have no behaviour to
  translate, and the method has no definition here.  What the lines show is that the
  batch is built from the coins of the provider's answer, \<open>data\<close>, and not from \<open>symbols\<close>.
  The \<open>catch\<close> block of the method answers with \<open>getFallbackCryptoData symbols\<close>, defined
  above.
\<close>

section \<open>Sample inputs\<close>

text \<open>
  A host in UTC whose clock stands at 2023-11-14T22:13:20.000Z and whose random source
  always answers 0.5, with an equity provider that does not answer; a record with a given symbol and
  percent change; an alert; and the binary64 value of the literal \<open>0.1\<close>.
\<close>

definition world0 :: world where
  "world0 =
     \<lparr> clock = (\<lambda>k. 1700000000000),
       random = (\<lambda>k. Fin (1 / 2)),
       tza_utc = (\<lambda>t. 0),
       tza_local = (\<lambda>t. 0),
       toLocaleTimeString = (\<lambda>t. iso_string t),
       yahoo_response = (\<lambda>smb. None),
       finish_rank = (\<lambda>i. i),
       finished_before_catch = 0 \<rparr>"

definition sample :: "string \<Rightarrow> jsnum \<Rightarrow> RealTimeMarketData" where
  "sample smb cp =
     \<lparr> symbol = smb, name = Some smb, price = Fin 100, change = Fin 0, changePercent = cp,
       volume = Fin 1000, high24h = Fin 100, low24h = Fin 100, marketCap = None,
       timestamp = [], history = [] \<rparr>"

definition alert0 :: Alert where
  "alert0 = \<lparr> id_alert = ''X-0'', message = [], type_alert = Info, timestamp_alert = [] \<rparr>"

definition tenth :: rat where
  "tenth = 3602879701896397 / 2 ^ 55"

text \<open>
  The same host with a random source that always answers 0.9; with a clock that passes
  midnight UTC between the tenth and the eleventh read (2023-11-14T23:59:59.999Z, then
  2023-11-15T00:00:00.000Z); a host on New York time, five hours behind UTC until
  2024-03-10T07:00:00Z and four hours from then on, whose clock stands at
  2024-03-20T23:30:00Z, 19:30 local time; and the first host with an equity provider that
  answers for AAPL and MSFT with the quote of one trading day.
\<close>

definition world_busy :: world where
  "world_busy = world0 \<lparr> random := (\<lambda>k. fl (9 / 10)) \<rparr>"

definition world_midnight :: world where
  "world_midnight = world0 \<lparr> clock := (\<lambda>k. if k < 10 then 1700006399999 else 1700006400000) \<rparr>"

definition world_new_york :: world where
  "world_new_york =
     world0 \<lparr> clock := (\<lambda>k. 1710977400000),
              tza_utc := (\<lambda>t. if t < 1710054000000 then - 18000000 else - 14400000),
              tza_local := (\<lambda>t. if t < 1710036000000 then - 18000000 else - 14400000) \<rparr>"

definition yahoo_quote :: "string \<Rightarrow> rat \<Rightarrow> YahooResult" where
  "yahoo_quote n p =
     \<lparr> regularMarketPrice = Fin p, previousClose = Fin p, regularMarketVolume = Some (Fin 1000),
       regularMarketDayHigh = Fin p, regularMarketDayLow = Fin p, longName = Some n,
       marketCap_y = None, timestamp_y = [1699920000], close_y = [Some (Fin p)],
       volume_y = [Some (Fin 1000)] \<rparr>"

definition world_quotes :: world where
  "world_quotes =
     world0 \<lparr> yahoo_response :=
                (\<lambda>smb. if smb = ''AAPL'' then Some (yahoo_quote ''Apple Inc.'' 213)
                       else if smb = ''MSFT'' then Some (yahoo_quote ''Microsoft Corporation'' 425)
                       else None) \<rparr>"

section \<open>Evaluation\<close>

text \<open>
  Rules that let the simplifier compute with the definitions above on literals: floors
  of quotients of numerals, and the definitions of rounding, of the operations and of
  the renderings.
\<close>

lemma floor_rat_numeral_div [simp]:
  "\<lfloor>(numeral a :: rat) / numeral b\<rfloor> = numeral a div numeral b"
  by (metis floor_divide_of_int_eq of_int_numeral)

lemma floor_rat_one_div [simp]:
  "\<lfloor>(1 :: rat) / numeral b\<rfloor> = 1 div numeral b"
  by (metis floor_divide_of_int_eq of_int_numeral of_int_1)

lemma ceiling_rat_numeral_div [simp]:
  "\<lceil>(numeral a :: rat) / numeral b\<rceil> = - (- numeral a div numeral b)"
  unfolding ceiling_def
  by (metis floor_divide_of_int_eq of_int_numeral of_int_minus minus_divide_left)

lemmas fl_eval =
  fl_def pack_def round_at_def quantum_def ilog2_def pow2_def round_even_def blen.simps

lemmas str_eval =
  toFixed_def fixed_digits_def point_at_def pad_left_def digits_of.simps digit_char_def show_int_def

lemmas num_eval =
  jdiv_def jmul_def jsub_def is_nan_def is_inf_def is_zero_def is_neg_def
  signed_inf_def signed_zero_def rat_of_def jgt_def jle_def

lemma jlt_irrefl: "\<not> jlt x x"
  by (cases x) (simp_all add: rat_of_def)

lemma jlt_asym: "jlt x y \<Longrightarrow> \<not> jlt y x"
  by (cases x; cases y) (simp_all add: rat_of_def)

lemma is_nan_simps [simp]:
  "\<not> is_nan (Fin q)" "\<not> is_nan NegZero" "\<not> is_nan PInf" "\<not> is_nan NInf" "is_nan NaN"
  by (simp_all add: is_nan_def)

lemma fl_not_nan [simp]: "\<not> is_nan (fl q)"
  by (simp add: fl_def pack_def)

lemma jmul_not_nan:
  "\<not> is_nan x \<Longrightarrow> \<not> is_nan y \<Longrightarrow> \<not> is_inf y \<Longrightarrow> \<not> is_zero y \<Longrightarrow> \<not> is_nan (jmul x y)"
  by (simp add: jmul_def signed_inf_def signed_zero_def)

lemma jmax_ge: "\<not> is_nan x \<Longrightarrow> \<not> is_nan y \<Longrightarrow> jle y (jmax x y)"
  by (auto simp: jle_def jmax_def jlt_irrefl)

lemmas date_eval =
  iso_day_def iso_date_def year_text_def two_digits_def year_of_def month_of_def
  day_of_def mp_def doy_def yoe_def doe_def msPerDay_def days_back_def

section \<open>The insight aggregator: claims\<close>

text \<open>
  Claim C1 says that the aggregator rejects an empty batch instead of returning an
  insight.  \<open>generateAIInsights\<close> has no failing branch: on the empty batch both sums are 0,
  both averages are \<open>0 / 0\<close>, and the insight below is returned.
\<close>

theorem empty_batch_insight:
  "generateAIInsights [] =
     \<lparr> summary = ''Real-time analysis of 0 assets. Average change: NaN%. Sideways movement with mixed signals.'',
       recommendations = [''Hold current positions'', ''Stable conditions for entry'',
                          ''Consider defensive positioning''],
       volatilityAnalysis = ''Current volatility: NaN% - Low'',
       trendDirection = Neutral \<rparr>"
  by (simp add: generateAIInsights_def avgChange_def volatility_def trend_of_def num_eval str_eval)

text \<open>
  Claim C1 as amended: on the empty batch the aggregator signals no error; the average
  change and the volatility are both \<open>NaN\<close>, every comparison with them is false, and the
  insight returned has the trend \<open>neutral\<close>, the second choice of each recommendation and
  the volatility class \<open>Low\<close>.
\<close>

theorem empty_batch_not_a_number:
  "avgChange [] = NaN \<and> volatility [] = NaN \<and>
   trendDirection (generateAIInsights []) = Neutral \<and>
   recommendations (generateAIInsights []) =
     [''Hold current positions'', ''Stable conditions for entry'', ''Consider defensive positioning''] \<and>
   volatilityAnalysis (generateAIInsights []) = ''Current volatility: NaN% - Low''"
  by (simp add: generateAIInsights_def avgChange_def volatility_def trend_of_def num_eval str_eval)

text \<open>
  Claim C3: for a non-empty batch the trend is \<open>bullish\<close> exactly when the average change
  is above 2, \<open>bearish\<close> exactly when it is below -2, and \<open>neutral\<close> otherwise; an average
  of exactly 2 or exactly -2 is \<open>neutral\<close>.
\<close>

theorem trend_thresholds:
  "data \<noteq> [] \<Longrightarrow>
     (trendDirection (generateAIInsights data) = Bullish \<longleftrightarrow> jgt (avgChange data) (Fin 2)) \<and>
     (trendDirection (generateAIInsights data) = Bearish \<longleftrightarrow> jlt (avgChange data) (Fin (- 2))) \<and>
     (trendDirection (generateAIInsights data) = Neutral \<longleftrightarrow>
        \<not> jgt (avgChange data) (Fin 2) \<and> \<not> jlt (avgChange data) (Fin (- 2))) \<and>
     (avgChange data = Fin 2 \<longrightarrow> trendDirection (generateAIInsights data) = Neutral) \<and>
     (avgChange data = Fin (- 2) \<longrightarrow> trendDirection (generateAIInsights data) = Neutral)"
  by (cases "avgChange data") (auto simp: generateAIInsights_def trend_of_def jgt_def rat_of_def)

theorem trend_thresholds_witness:
  "avgChange [sample ''BTC'' (Fin 2)] = Fin 2
   \<and> trendDirection (generateAIInsights [sample ''BTC'' (Fin 2)]) = Neutral
   \<and> avgChange [sample ''BTC'' (Fin (- 1)), sample ''ETH'' (Fin (- 3))] = Fin (- 2)
   \<and> trendDirection (generateAIInsights [sample ''BTC'' (Fin (- 1)), sample ''ETH'' (Fin (- 3))]) = Neutral"
proof -
  have avg: "avgChange [sample ''BTC'' (Fin 2)] = Fin 2"
    by (simp add: avgChange_def sample_def num_eval fl_eval)
  have avg': "avgChange [sample ''BTC'' (Fin (- 1)), sample ''ETH'' (Fin (- 3))] = Fin (- 2)"
    by (simp add: avgChange_def sample_def num_eval fl_eval)
  show ?thesis
    using trend_thresholds[of "[sample ''BTC'' (Fin 2)]"]
      trend_thresholds[of "[sample ''BTC'' (Fin (- 1)), sample ''ETH'' (Fin (- 3))]"] avg avg'
    by simp
qed

lemma foldl_exact:
  "map changePercent data = map Fin qs \<Longrightarrow> exact_sums s qs \<Longrightarrow>
     foldl (\<lambda>sum item. jadd sum (changePercent item)) (Fin s) data = Fin (s + sum_list qs)"
proof (induction data arbitrary: s qs)
  case Nil
  then show ?case by simp
next
  case (Cons item rest)
  then obtain q qs' where qs: "qs = q # qs'" "changePercent item = Fin q"
      "map changePercent rest = map Fin qs'"
    by (cases qs) auto
  from Cons.prems(2) qs have step: "jadd (Fin s) (Fin q) = Fin (s + q)"
    and rest: "exact_sums (s + q) qs'"
    by simp_all
  show ?case
    using Cons.IH[OF qs(3) rest] qs step by (simp add: add.assoc)
qed

lemma sum_list_lower:
  "\<forall>q \<in> set qs. m \<le> q \<Longrightarrow> of_nat (length qs) * m \<le> sum_list (qs :: rat list)"
  by (induction qs) (auto simp: algebra_simps)

lemma sum_list_upper:
  "\<forall>q \<in> set qs. q \<le> m \<Longrightarrow> sum_list (qs :: rat list) \<le> of_nat (length qs) * m"
  by (induction qs) (auto simp: algebra_simps)

lemma mean_between:
  assumes "qs \<noteq> []"
  shows "Min (set qs) \<le> sum_list qs / of_nat (length qs) \<and>
         sum_list qs / of_nat (length qs) \<le> Max (set (qs :: rat list))"
proof -
  have n: "0 < (of_nat (length qs) :: rat)" using assms by simp
  have "of_nat (length qs) * Min (set qs) \<le> sum_list qs"
    by (rule sum_list_lower) simp
  moreover have "sum_list qs \<le> of_nat (length qs) * Max (set qs)"
    by (rule sum_list_upper) simp
  ultimately show ?thesis
    using n by (simp add: pos_le_divide_eq pos_divide_le_eq mult.commute)
qed

text \<open>
  Claim C6 says that the average change of a non-empty batch is the arithmetic mean of
  the percent changes and lies between their minimum and maximum.  Three records whose
  percent change is the binary64 value of \<open>0.1\<close>: the third addition rounds up, and the
  average computed is the next binary64 value above \<open>0.1\<close>, which is neither the mean nor
  at most the maximum.
\<close>

theorem mean_above_max:
  "avgChange [sample ''A'' (Fin tenth), sample ''B'' (Fin tenth), sample ''C'' (Fin tenth)]
     = Fin (7205759403792795 / 2 ^ 56)
   \<and> jlt (Fin tenth)
         (avgChange [sample ''A'' (Fin tenth), sample ''B'' (Fin tenth), sample ''C'' (Fin tenth)])"
proof -
  have avg: "avgChange [sample ''A'' (Fin tenth), sample ''B'' (Fin tenth), sample ''C'' (Fin tenth)]
     = Fin (7205759403792795 / 2 ^ 56)"
    by (simp add: avgChange_def sample_def tenth_def num_eval fl_eval)
  show ?thesis unfolding avg by (simp add: tenth_def rat_of_def)
qed

text \<open>
  Claim C6 as amended: for a non-empty batch of finite percent changes \<open>qs\<close>, when no
  addition of the running sum and not the final division rounds, the average change is
  the arithmetic mean of \<open>qs\<close> and lies between the minimum and the maximum of \<open>qs\<close>.
\<close>

theorem avgChange_exact:
  assumes "data \<noteq> []"
    and "map changePercent data = map Fin qs"
    and "exact_sums 0 qs"
    and "jdiv (Fin (sum_list qs)) (Fin (of_nat (length qs))) = Fin (sum_list qs / of_nat (length qs))"
  shows "avgChange data = Fin (sum_list qs / of_nat (length qs)) \<and>
         Min (set qs) \<le> sum_list qs / of_nat (length qs) \<and>
         sum_list qs / of_nat (length qs) \<le> Max (set qs)"
proof -
  have len: "length data = length qs"
    using assms(2) by (metis length_map)
  then have "qs \<noteq> []" using assms(1) by auto
  then show ?thesis
    using foldl_exact[OF assms(2,3)] assms(4) len mean_between[of qs]
    by (simp add: avgChange_def)
qed

theorem avgChange_exact_witness:
  "avgChange [sample ''A'' (Fin 1), sample ''B'' (Fin 2), sample ''C'' (Fin 6)] = Fin 3
   \<and> Min (set [1, 2, 6 :: rat]) \<le> 3 \<and> 3 \<le> Max (set [1, 2, 6 :: rat])"
proof -
  have 1: "map changePercent [sample ''A'' (Fin 1), sample ''B'' (Fin 2), sample ''C'' (Fin 6)]
      = map Fin [1, 2, 6]"
    by (simp add: sample_def)
  have 2: "exact_sums 0 [1, 2, 6]"
    by (simp add: fl_eval)
  have 3: "jdiv (Fin (sum_list [1, 2, 6])) (Fin (of_nat (length [1, 2, 6 :: rat])))
      = Fin (sum_list [1, 2, 6] / of_nat (length [1, 2, 6 :: rat]))"
    by (simp add: num_eval fl_eval)
  show ?thesis
    using avgChange_exact[OF _ 1 2 3] by simp
qed

section \<open>The alert detector: claims\<close>

lemma collectAlerts_filter:
  "collectAlerts w T k data =
     map (\<lambda>(i, item). mkAlert w (k + 2 * i) item)
         (enumerate 0 (filter (\<lambda>item. jgt (jabs (changePercent item)) T) data))"
proof (induction data arbitrary: k)
  case Nil
  show ?case by simp
next
  case (Cons item rest)
  have shift: "map (\<lambda>(i, x). mkAlert w (k + 2 * i) x) (enumerate (Suc 0) xs)
      = map (\<lambda>(i, x). mkAlert w (k + 2 + 2 * i) x) (enumerate 0 xs)" for xs
    by (simp add: enumerate_Suc_eq case_prod_beta)
  show ?case
    using Cons.IH[of "k + 2"] Cons.IH[of k] shift by simp
qed

lemma collectAlerts_none:
  "\<forall>item \<in> set data. \<not> jgt (jabs (changePercent item)) T \<Longrightarrow> collectAlerts w T k data = []"
  by (induction data arbitrary: k) simp_all

text \<open>
  When the existing feed has at most 10 entries, or at least one alert fires, the feed
  after the invocation has at most 10 entries and is the last ten, or all, of the
  existing feed followed by the new alerts.
\<close>

lemma checkAlerts_last10:
  "length alerts \<le> 10 \<or> newAlerts w T data \<noteq> [] \<Longrightarrow>
     length (checkAlerts w T alerts data) \<le> 10 \<and>
     checkAlerts w T alerts data =
       drop (length (alerts @ newAlerts w T data) - 10) (alerts @ newAlerts w T data)"
  by (auto simp: checkAlerts_def slice_last10_def)

text \<open>
  Every feed the application can hold has at most 10 entries: it starts empty and
  changes only through \<open>checkAlerts\<close>.
\<close>

lemma feed_reachable_bounded: "feed_reachable alerts \<Longrightarrow> length alerts \<le> 10"
  by (induction rule: feed_reachable.induct) (auto simp: checkAlerts_def slice_last10_def)

text \<open>
  Claim C2: for every feed the application can hold and every batch and threshold, the
  feed after one invocation of \<open>checkAlerts\<close> has at most 10 entries, and it is the
  existing feed followed by the new alerts without its oldest entries, counted after the
  append: the first \<open>length - 10\<close> entries are dropped, alerts of this batch among them
  when more than 10 fire.
\<close>

theorem checkAlerts_feed_bounded:
  "feed_reachable alerts \<Longrightarrow>
     length (checkAlerts w T alerts data) \<le> 10 \<and>
     checkAlerts w T alerts data =
       drop (length (alerts @ newAlerts w T data) - 10) (alerts @ newAlerts w T data)"
  using feed_reachable_bounded[of alerts] checkAlerts_last10[of alerts w T data] by blast

theorem checkAlerts_feed_bounded_witness:
  "feed_reachable []
   \<and> length (checkAlerts world0 (Fin 8) [] (replicate 12 (sample ''BTC'' (Fin 9)))) \<le> 10
   \<and> checkAlerts world0 (Fin 8) [] (replicate 12 (sample ''BTC'' (Fin 9)))
       = drop 2 (newAlerts world0 (Fin 8) (replicate 12 (sample ''BTC'' (Fin 9))))"
  using checkAlerts_feed_bounded[OF feed_reachable.start, of world0 "Fin 8"
      "replicate 12 (sample ''BTC'' (Fin 9))"]
  by (simp add: feed_reachable.start newAlerts_def collectAlerts_filter sample_def jgt_def rat_of_def)

text \<open>
  Claim C4: the alerts one invocation generates are, in the order of the batch, one for
  each record whose absolute percent change is strictly above the threshold; the alert
  of a record with a positive change has the type \<open>success\<close>, that of a record with a
  negative change the type \<open>warning\<close>; a record whose absolute change equals the
  threshold generates none.
\<close>

theorem newAlerts_spec:
  "newAlerts w T data =
     map (\<lambda>(i, item). mkAlert w (2 * i) item)
         (enumerate 0 (filter (\<lambda>item. jgt (jabs (changePercent item)) T) data))
   \<and> (jgt (changePercent item) (Fin 0) \<longrightarrow> type_alert (mkAlert w k item) = Success)
   \<and> (jlt (changePercent item) (Fin 0) \<longrightarrow> type_alert (mkAlert w k item) = Warning)
   \<and> (jabs (changePercent item) = T \<longrightarrow> newAlerts w T [item] = [])"
  using jlt_asym[of "changePercent item" "Fin 0"]
  by (simp add: newAlerts_def collectAlerts_filter mkAlert_def jgt_def jlt_irrefl)

theorem newAlerts_spec_witness:
  "map type_alert (newAlerts world0 (Fin 8)
       [sample ''BTC'' (Fin (17 / 2)), sample ''ETH'' (Fin 3), sample ''SOL'' (Fin (- 17 / 2))])
     = [Success, Warning]
   \<and> newAlerts world0 (Fin 8) [sample ''ADA'' (Fin 8)] = []"
  using newAlerts_spec[of world0 "Fin 8"
      "[sample ''BTC'' (Fin (17 / 2)), sample ''ETH'' (Fin 3), sample ''SOL'' (Fin (- 17 / 2))]"
      "sample ''ADA'' (Fin 8)" 0]
  by (simp add: sample_def jgt_def rat_of_def mkAlert_def)

text \<open>
  Claim C10: when no record of the batch has an absolute percent change strictly above
  the threshold, the invocation leaves the feed as it is, whatever its length.
\<close>

theorem checkAlerts_frame:
  "\<forall>item \<in> set data. \<not> jgt (jabs (changePercent item)) T \<Longrightarrow> checkAlerts w T alerts data = alerts"
  by (simp add: checkAlerts_def newAlerts_def collectAlerts_none)

theorem checkAlerts_frame_witness:
  "checkAlerts world0 (Fin 8) (replicate 11 alert0) [sample ''BTC'' (Fin 3), sample ''ETH'' (Fin (- 8))]
     = replicate 11 alert0"
  using checkAlerts_frame[of "[sample ''BTC'' (Fin 3), sample ''ETH'' (Fin (- 8))]" "Fin 8" world0
      "replicate 11 alert0"]
  by (simp add: sample_def jgt_def rat_of_def)

section \<open>The cache: claims\<close>

text \<open>
  Claim C5: reading a key after storing a batch under it returns that batch while less
  than 60000 milliseconds have passed since the store, in particular at once, and
  returns nothing from then on, for instance 61 seconds later; an entry is valid exactly
  when the time since its capture is below \<open>CACHE_DURATION\<close>.
\<close>

theorem cache_get_after_put:
  "cache_get now' (cache_put now c key batch) key = (if now' - now < 60000 then Some batch else None)
   \<and> cache_get now (cache_put now c key batch) key = Some batch
   \<and> cache_get (now + 61000) (cache_put now c key batch) key = None
   \<and> (isValidCache now' c key \<longleftrightarrow>
        (\<exists>cached. c key = Some cached \<and> now' - timestamp_c cached < CACHE_DURATION))"
  by (auto simp: cache_get_def cache_put_def isValidCache_def CACHE_DURATION_def split: option.splits)

section \<open>Synthetic histories: claims\<close>

lemma for_down_length:
  assumes body: "\<And>i s. length (hist (body i s)) = Suc (length (hist s))"
  shows "length (hist (for_down body n s)) = length (hist s) + n"
  by (induction n arbitrary: s) (simp_all add: body)

lemma for_down_dates:
  assumes body: "\<And>i s. map date (hist (body i s)) = map date (hist s) @ [dt (nc s) i]"
                "\<And>i s. nc (body i s) = nc s + 1"
  shows "map date (hist (for_down body n s)) =
           map date (hist s) @ map (\<lambda>j. dt (nc s + j) (n - 1 - j)) [0..<n]"
proof (induction n arbitrary: s)
  case 0
  show ?case by simp
next
  case (Suc n)
  have split: "[0..<Suc n] = 0 # map Suc [0..<n]"
    by (simp add: upt_conv_Cons map_Suc_upt del: upt_Suc)
  show ?case
    unfolding split
    by (simp add: Suc.IH body comp_def)
qed

lemma stock_len: "length (hist (stockLoop w smb kr kc)) = 30"
  unfolding stockLoop_def
  by (subst for_down_length) (simp_all add: stockDay_def)

lemma crypto_len: "length (hist (cryptoLoop w smb kr kc)) = 30"
  unfolding cryptoLoop_def
  by (subst for_down_length) (simp_all add: cryptoDay_def)

lemma ecommerce_len: "length (hist (ecommerceLoop w smb kr kc)) = 30"
  unfolding ecommerceLoop_def
  by (subst for_down_length) (simp_all add: ecommerceDay_def)

lemma stock_dates:
  "map date (hist (stockLoop w smb kr kc)) =
     map (\<lambda>j. iso_day (days_back w (clock w (kc + j)) (29 - j))) [0..<30]"
  unfolding stockLoop_def
  by (subst for_down_dates[where dt = "\<lambda>k i. iso_day (days_back w (clock w k) i)"])
     (simp_all add: stockDay_def)

lemma crypto_dates:
  "map date (hist (cryptoLoop w smb kr kc)) =
     map (\<lambda>j. iso_day (days_back w (clock w (kc + j)) (29 - j))) [0..<30]"
  unfolding cryptoLoop_def
  by (subst for_down_dates[where dt = "\<lambda>k i. iso_day (days_back w (clock w k) i)"])
     (simp_all add: cryptoDay_def)

lemma ecommerce_dates:
  "map date (hist (ecommerceLoop w smb kr kc)) =
     map (\<lambda>j. iso_day (days_back w (clock w (kc + j)) (29 - j))) [0..<30]"
  unfolding ecommerceLoop_def
  by (subst for_down_dates[where dt = "\<lambda>k i. iso_day (days_back w (clock w k) i)"])
     (simp_all add: ecommerceDay_def)

text \<open>With a constant offset and a clock that stays on the UTC day \<open>d\<close>, the dates are those of the days \<open>d - 29\<close> to \<open>d\<close>.\<close>

lemma stable_day:
  assumes "\<forall>t. tza_utc w t = z \<and> tza_local w t = z" "\<forall>k. clock w k div msPerDay = d" "j < 30"
  shows "iso_day (days_back w (clock w (kc + j)) (29 - j)) = iso_date (d - 29 + int j)"
proof -
  have "(clock w (kc + j) - int (29 - j) * msPerDay) div msPerDay
          = clock w (kc + j) div msPerDay - int (29 - j)"
    by (simp add: msPerDay_def div_diff)
  moreover have "d - (29 - int j) = d - 29 + int j" by simp
  ultimately show ?thesis
    using assms by (simp add: iso_day_def days_back_def of_nat_diff)
qed

lemma stable_dates:
  assumes "\<forall>t. tza_utc w t = z \<and> tza_local w t = z" "\<forall>k. clock w k div msPerDay = d"
  shows "map (\<lambda>j. iso_day (days_back w (clock w (kc + j)) (29 - j))) [0..<30]
         = map (\<lambda>j. iso_date (d - 29 + int j)) [0..<30]"
  using stable_day[OF assms] by (intro map_cong) auto

text \<open>The price floor of the e-commerce loop.\<close>

lemma seven_tenths: "fl (7 / 10) = Fin (3152519739159347 / 2 ^ 52)"
  by (simp add: fl_eval)

lemma base_not_nan:
  assumes "productId \<notin> fst ` set object_prototype_names"
  shows "\<not> is_nan (price_b (productBase productId))"
proof -
  have "map_of object_prototype_names productId = None"
    using assms by (simp add: map_of_eq_None_iff)
  then show ?thesis
    by (auto simp: productBase_def lookup_base_def product_def productPrices_def
        split: option.splits if_splits)
qed

lemma floor_not_nan: "\<not> is_nan b \<Longrightarrow> \<not> is_nan (jmul b (fl (7 / 10)))"
  by (rule jmul_not_nan) (simp_all add: seven_tenths is_inf_def is_zero_def)

lemma promo_factor:
  "jadd (Fin 1) (promoChange w k)
     \<in> {Fin 1, Fin (8106479329266893 / 2 ^ 53), Fin (4728779608739021 / 2 ^ 52)}"
  by (simp add: promoChange_def fl_eval)

lemma promo_factor_ok:
  "\<not> is_nan (jadd (Fin 1) (promoChange w k)) \<and> \<not> is_inf (jadd (Fin 1) (promoChange w k))
   \<and> \<not> is_zero (jadd (Fin 1) (promoChange w k))"
  using promo_factor[of w k] by (auto simp: is_inf_def is_zero_def)

lemma ecommerce_floor:
  assumes "\<not> is_nan b"
    and "list_all (\<lambda>p. jle (jmul b (fl (7 / 10))) (price_h p)) (hist s)"
    and "\<not> is_nan (cur s)"
  shows "list_all (\<lambda>p. jle (jmul b (fl (7 / 10))) (price_h p)) (hist (for_down (ecommerceDay w b) n s))"
  using assms(2,3)
proof (induction n arbitrary: s)
  case 0
  then show ?case by simp
next
  case (Suc n)
  have c: "\<not> is_nan (jmul (cur s) (jadd (Fin 1) (promoChange w (nr s))))"
    using Suc.prems(2) promo_factor_ok[of w "nr s"] by (simp add: jmul_not_nan)
  have "jle (jmul b (fl (7 / 10)))
          (jmax (jmul (cur s) (jadd (Fin 1) (promoChange w (nr s)))) (jmul b (fl (7 / 10))))"
    using c floor_not_nan[OF assms(1)] by (rule jmax_ge)
  then have 1: "list_all (\<lambda>p. jle (jmul b (fl (7 / 10))) (price_h p)) (hist (ecommerceDay w b n s))"
    using Suc.prems(1) by (simp add: ecommerceDay_def)
  have 2: "\<not> is_nan (cur (ecommerceDay w b n s))"
    using c by (simp add: ecommerceDay_def)
  show ?case
    using Suc.IH[OF 1 2] by simp
qed

lemma map_gen_all:
  "(\<And>x kr kc. P (fst (f x kr kc))) \<Longrightarrow> list_all P (map_gen f xs kr kc)"
  by (induction xs arbitrary: kr kc) (auto split: prod.splits, metis fst_conv)

lemma map_gen_symbols:
  "(\<And>x kr kc. symbol (fst (f x kr kc)) = x) \<Longrightarrow> map symbol (map_gen f xs kr kc) = xs"
  by (induction xs arbitrary: kr kc) (auto split: prod.splits, metis fst_conv)

lemma ecommerce_dates_at:
  "j < 30 \<Longrightarrow> map date (history (hd (fetchEcommerceData w [productId]))) ! j
     = iso_day (days_back w (clock w j) (29 - j))"
  by (simp add: fetchEcommerceData_def ecommerceRecord_def ecommerce_dates del: upt_Suc)

lemma day_19655: "iso_date 19655 = ''2023-10-25''"
  by (simp add: date_eval str_eval)

lemma day_19657: "iso_date 19657 = ''2023-10-27''"
  by (simp add: date_eval str_eval)

lemma day_19792: "iso_date 19792 = ''2024-03-10''"
  by (simp add: date_eval str_eval)

lemma stock_dates_at:
  "j < 30 \<Longrightarrow> map date (history (hd (getFallbackStockData w [smb] k))) ! j
     = iso_day (days_back w (clock w (k + j)) (29 - j))"
  by (simp add: getFallbackStockData_def fallbackStock_def stock_dates del: upt_Suc)

text \<open>
  Every history has 30 points.  On a host whose offset from UTC is constant and whose
  clock stays on the UTC day \<open>d\<close> during the invocation, the dates of each history are those
  of the 30 consecutive days \<open>d - 29\<close> to \<open>d\<close>, in this order.  For a product id that is not
  the name of a property of \<open>Object.prototype\<close>, every price of its e-commerce history is
  at least the floor the code computes, \<open>baseline * 0.7\<close> in binary64.
\<close>

lemma synthetic_history_stable:
  "list_all (\<lambda>r. length (history r) = 30) (getFallbackStockData w symbols k) \<and>
   list_all (\<lambda>r. length (history r) = 30) (getFallbackCryptoData w symbols k) \<and>
   list_all (\<lambda>r. length (history r) = 30) (fetchEcommerceData w symbols) \<and>
   ((\<forall>t. tza_utc w t = z \<and> tza_local w t = z) \<and> (\<forall>n. clock w n div msPerDay = d) \<longrightarrow>
      list_all (\<lambda>r. map date (history r) = map (\<lambda>j. iso_date (d - 29 + int j)) [0..<30])
        (getFallbackStockData w symbols k) \<and>
      list_all (\<lambda>r. map date (history r) = map (\<lambda>j. iso_date (d - 29 + int j)) [0..<30])
        (getFallbackCryptoData w symbols k) \<and>
      list_all (\<lambda>r. map date (history r) = map (\<lambda>j. iso_date (d - 29 + int j)) [0..<30])
        (fetchEcommerceData w symbols)) \<and>
   list_all (\<lambda>r. symbol r \<notin> fst ` set object_prototype_names \<longrightarrow>
               list_all (\<lambda>p. jle (jmul (price_b (productBase (symbol r))) (fl (7 / 10))) (price_h p))
                 (history r))
     (fetchEcommerceData w symbols)"
proof (intro conjI impI)
  show "list_all (\<lambda>r. length (history r) = 30) (getFallbackStockData w symbols k)"
    unfolding getFallbackStockData_def by (rule map_gen_all) (simp add: fallbackStock_def stock_len)
  show "list_all (\<lambda>r. length (history r) = 30) (getFallbackCryptoData w symbols k)"
    unfolding getFallbackCryptoData_def by (rule map_gen_all) (simp add: fallbackCrypto_def crypto_len)
  show "list_all (\<lambda>r. length (history r) = 30) (fetchEcommerceData w symbols)"
    unfolding fetchEcommerceData_def by (rule map_gen_all) (simp add: ecommerceRecord_def ecommerce_len)
  show "list_all (\<lambda>r. symbol r \<notin> fst ` set object_prototype_names \<longrightarrow>
               list_all (\<lambda>p. jle (jmul (price_b (productBase (symbol r))) (fl (7 / 10))) (price_h p))
                 (history r))
     (fetchEcommerceData w symbols)"
    unfolding fetchEcommerceData_def
    by (rule map_gen_all) (simp add: ecommerceRecord_def ecommerceLoop_def ecommerce_floor base_not_nan)
next
  assume env: "(\<forall>t. tza_utc w t = z \<and> tza_local w t = z) \<and> (\<forall>n. clock w n div msPerDay = d)"
  then have st: "map (\<lambda>j. iso_day (days_back w (clock w (kc + j)) (29 - j))) [0..<30]
         = map (\<lambda>j. iso_date (d - 29 + int j)) [0..<30]" for kc
    by (intro stable_dates) auto
  show "list_all (\<lambda>r. map date (history r) = map (\<lambda>j. iso_date (d - 29 + int j)) [0..<30])
        (getFallbackStockData w symbols k)"
    unfolding getFallbackStockData_def
    by (rule map_gen_all) (simp add: fallbackStock_def stock_dates st del: upt_Suc)
  show "list_all (\<lambda>r. map date (history r) = map (\<lambda>j. iso_date (d - 29 + int j)) [0..<30])
        (getFallbackCryptoData w symbols k)"
    unfolding getFallbackCryptoData_def
    by (rule map_gen_all) (simp add: fallbackCrypto_def crypto_dates st del: upt_Suc)
  show "list_all (\<lambda>r. map date (history r) = map (\<lambda>j. iso_date (d - 29 + int j)) [0..<30])
        (fetchEcommerceData w symbols)"
    unfolding fetchEcommerceData_def
    by (rule map_gen_all) (simp add: ecommerceRecord_def ecommerce_dates st del: upt_Suc)
qed

text \<open>
  Each iteration of the history loop reads the clock anew: when midnight UTC passes
  between the tenth and the eleventh iteration, the tenth and the eleventh date are two
  days apart.
\<close>

lemma history_dates_skip:
  "map date (history (hd (fetchEcommerceData world_midnight [''PS5'']))) ! 9 = ''2023-10-25'' \<and>
   map date (history (hd (fetchEcommerceData world_midnight [''PS5'']))) ! 10 = ''2023-10-27''"
  by (simp add: ecommerce_dates_at world_midnight_def world0_def iso_day_def days_back_def
      msPerDay_def day_19655 day_19657)

text \<open>
  The days are counted back in local time and printed in UTC.  On New York time at 19:30,
  ten days after the clocks went forward, a history holds the date of the change twice.
\<close>

lemma history_dates_repeat:
  "map date (history (hd (fetchEcommerceData world_new_york [''PS5'']))) ! 18 = ''2024-03-10'' \<and>
   map date (history (hd (fetchEcommerceData world_new_york [''PS5'']))) ! 19 = ''2024-03-10''"
  by (simp add: ecommerce_dates_at world_new_york_def world0_def iso_day_def days_back_def
      msPerDay_def day_19792)

lemma stock_dates_repeat:
  "map date (history (hd (getFallbackStockData world_new_york [''AAPL''] 0))) ! 18 = ''2024-03-10'' \<and>
   map date (history (hd (getFallbackStockData world_new_york [''AAPL''] 0))) ! 19 = ''2024-03-10''"
  by (simp add: stock_dates_at world_new_york_def world0_def iso_day_def days_back_def
      msPerDay_def day_19792)

text \<open>
  A product id that names a property of \<open>Object.prototype\<close> finds no price: every price of
  its history is \<open>NaN\<close>, which is not at least anything.
\<close>

lemma nan_prices:
  assumes "list_all (\<lambda>p. is_nan (price_h p)) (hist s)" "is_nan (cur s)"
  shows "list_all (\<lambda>p. is_nan (price_h p)) (hist (for_down (ecommerceDay w b) n s))"
  using assms
proof (induction n arbitrary: s)
  case 0
  then show ?case by simp
next
  case (Suc n)
  have 1: "list_all (\<lambda>p. is_nan (price_h p)) (hist (ecommerceDay w b n s))"
    using Suc.prems by (simp add: ecommerceDay_def jmul_def jmax_def)
  have 2: "is_nan (cur (ecommerceDay w b n s))"
    using Suc.prems by (simp add: ecommerceDay_def jmul_def)
  show ?case
    using Suc.IH[OF 1 2] by simp
qed

lemma prototype_name_prices:
  "list_all (\<lambda>p. is_nan (price_h p)) (history (hd (fetchEcommerceData w [''constructor''])))"
proof -
  have "price_b (productBase ''constructor'') = NaN"
    by (simp add: productBase_def lookup_base_def productPrices_def object_prototype_names_def)
  then show ?thesis
    by (simp add: fetchEcommerceData_def ecommerceRecord_def ecommerceLoop_def nan_prices)
qed

lemma prototype_name_history:
  "map price_h (history (hd (fetchEcommerceData w [''constructor'']))) = replicate 30 NaN"
proof -
  have len: "length (history (hd (fetchEcommerceData w [''constructor'']))) = 30"
    by (simp add: fetchEcommerceData_def ecommerceRecord_def ecommerce_len)
  have nan: "is_nan x \<Longrightarrow> x = NaN" for x
    by (cases x) simp_all
  have "\<forall>p \<in> set (history (hd (fetchEcommerceData w [''constructor'']))). price_h p = NaN"
    using prototype_name_prices[of w] by (auto simp: list_all_iff nan)
  then have "map price_h (history (hd (fetchEcommerceData w [''constructor''])))
      = replicate (length (history (hd (fetchEcommerceData w [''constructor''])))) NaN"
    by (simp add: map_replicate_const[symmetric] cong: map_cong)
  then show ?thesis
    by (simp add: len)
qed

text \<open>
  Claim C7 says that, for every symbol and all random draws, a synthetic history has 30
  points whose dates go up by one calendar day, and that every e-commerce price is at
  least 0.7 times the baseline.  The generators do not keep to it.  On the host on New York
  time the e-commerce history of \<open>PS5\<close> and the stock fallback history of \<open>AAPL\<close> hold the
  date 2024-03-10 at the positions 18 and 19; with midnight UTC passing during the loop
  the e-commerce history of \<open>PS5\<close> goes from 2023-10-25 to 2023-10-27; and all 30 prices of
  the e-commerce history of the product id \<open>constructor\<close> are \<open>NaN\<close>.
\<close>

theorem synthetic_history_breaks:
  "map date (history (hd (fetchEcommerceData world_new_york [''PS5'']))) ! 18 = ''2024-03-10'' \<and>
   map date (history (hd (fetchEcommerceData world_new_york [''PS5'']))) ! 19 = ''2024-03-10'' \<and>
   map date (history (hd (getFallbackStockData world_new_york [''AAPL''] 0))) ! 18 = ''2024-03-10'' \<and>
   map date (history (hd (getFallbackStockData world_new_york [''AAPL''] 0))) ! 19 = ''2024-03-10'' \<and>
   map date (history (hd (fetchEcommerceData world_midnight [''PS5'']))) ! 9 = ''2023-10-25'' \<and>
   map date (history (hd (fetchEcommerceData world_midnight [''PS5'']))) ! 10 = ''2023-10-27'' \<and>
   map price_h (history (hd (fetchEcommerceData world0 [''constructor'']))) = replicate 30 NaN"
  using history_dates_repeat stock_dates_repeat history_dates_skip prototype_name_history[of world0]
  by simp

section \<open>The fetch methods: claims\<close>

lemma yahoo_symbols:
  "those (map (\<lambda>(i, smb). yahooRecord w (k + f i) smb) (enumerate n symbols)) = Some rs
     \<Longrightarrow> map symbol rs = symbols"
proof (induction symbols arbitrary: n rs)
  case Nil
  then show ?case by simp
next
  case (Cons smb rest)
  then obtain r rs' where r: "yahooRecord w (k + f n) smb = Some r"
      and rs': "those (map (\<lambda>(i, smb). yahooRecord w (k + f i) smb) (enumerate (Suc n) rest)) = Some rs'"
      and rs: "rs = r # rs'"
    by (auto split: option.splits)
  have "symbol r = smb"
    using r by (auto simp: yahooRecord_def split: option.splits if_splits)
  then show ?case
    using Cons.IH[OF rs'] rs by simp
qed

text \<open>
  The methods that build their batch from \<open>symbols\<close> return one record for each symbol, in
  the order of the list: \<open>fetchEcommerceData\<close>, the two synthetic fallbacks, and
  \<open>fetchStockData\<close> when the cache has no valid entry, whether the provider answers or not.
\<close>

lemma batch_symbols:
  "map symbol (fetchEcommerceData w symbols) = symbols \<and>
   map symbol (getFallbackStockData w symbols k) = symbols \<and>
   map symbol (getFallbackCryptoData w symbols k) = symbols"
  by (simp add: fetchEcommerceData_def getFallbackStockData_def getFallbackCryptoData_def
      map_gen_symbols ecommerceRecord_def fallbackStock_def fallbackCrypto_def)

lemma fetchStockData_symbols:
  "cache_get (clock w 0) c (stockKey symbols) = None \<Longrightarrow>
     map symbol (fst (fetchStockData w c symbols)) = symbols"
  by (auto simp: fetchStockData_def batch_symbols yahoo_symbols split: option.splits)

text \<open>
  The cache key joins the symbols with commas, so the list of the one symbol
  \<open>AAPL,MSFT\<close> has the key of the list of the two symbols \<open>AAPL\<close> and \<open>MSFT\<close>.  The application
  splits the text of its input field at a comma followed by a space, so \<open>AAPL,MSFT\<close> typed
  without the space is one symbol.
\<close>

lemma stockKey_collision: "stockKey [''AAPL,MSFT''] = stockKey [''AAPL'', ''MSFT'']"
  by (simp add: stockKey_def)

text \<open>
  Claim C8 says that, for every market type and list of symbols, the batch holds one
  record for each symbol, in the order of the list.  \<open>fetchStockData\<close> asked for \<open>AAPL\<close> and
  \<open>MSFT\<close> stores the provider's two records; asked within the minute for the one symbol
  \<open>AAPL,MSFT\<close>, it finds them under the same key and returns the two records for the one
  symbol.
\<close>

theorem stock_cache_collision:
  "map symbol
     (fst (fetchStockData world_quotes
             (snd (fetchStockData world_quotes Map.empty [''AAPL'', ''MSFT''])) [''AAPL,MSFT'']))
     = [''AAPL'', ''MSFT'']"
  by (simp add: fetchStockData_def stockKey_def cache_get_def isValidCache_def cache_put_def
      cache_reads_def CACHE_DURATION_def yahooRecord_def world_quotes_def world0_def
      yahoo_quote_def slice_last30_def valid_time_def)

section \<open>The refresh cycle: claims\<close>

lemma map_gen_two:
  "\<exists>kr kc. map_gen f [a, b] kr0 kc0 = [fst (f a kr0 kc0), fst (f b kr kc)]"
proof -
  obtain r kr' kc' where 1: "f a kr0 kc0 = (r, kr', kc')"
    by (cases "f a kr0 kc0") auto
  obtain r2 x y where 2: "f b kr' kc' = (r2, x, y)"
    by (cases "f b kr' kc'") auto
  show ?thesis
    by (intro exI[of _ kr'] exI[of _ kc']) (simp add: 1 2)
qed

lemma nine_tenths: "fl (9 / 10) = Fin (8106479329266893 / 2 ^ 53)"
  by (simp add: fl_eval)

text \<open>With the draw 0.9 the percent change of the product \<open>PS5\<close> is 4.000000000000001.\<close>

lemma ps5_change:
  "changePercent (fst (ecommerceRecord world_busy ''PS5'' kr kc)) = Fin (4503599627370497 / 2 ^ 50)"
  by (simp add: ecommerceRecord_def ecommerceChange_def centred_def productBase_def lookup_base_def
      productPrices_def product_def world_busy_def world0_def nine_tenths num_eval fl_eval)

lemma ecommerce_symbol: "symbol (fst (ecommerceRecord w productId kr kc)) = productId"
  by (simp add: ecommerceRecord_def)

lemma two_alerts:
  "jgt (jabs (changePercent r1)) T \<Longrightarrow> jgt (jabs (changePercent r2)) T \<Longrightarrow>
     map id_alert (checkAlerts w T [] [r1, r2])
       = [symbol r1 @ ''-'' @ show_int (clock w 0), symbol r2 @ ''-'' @ show_int (clock w 2)]"
  by (simp add: checkAlerts_def newAlerts_def slice_last10_def mkAlert_def numeral_2_eq_2)

text \<open>
  Claim C9 says that the ids in a reachable feed are pairwise distinct.  The tracked
  items \<open>PS5, PS5\<close> on the e-commerce market with the threshold 1, every random draw 0.9
  and every clock read within one millisecond: both records of the batch are over the
  threshold, and the feed after one invocation from the empty feed holds the same id
  twice.
\<close>

theorem duplicate_alert_ids:
  "feed_reachable (checkAlerts world_busy (Fin 1) [] (fetchEcommerceData world_busy [''PS5'', ''PS5'']))
   \<and> map id_alert (checkAlerts world_busy (Fin 1) [] (fetchEcommerceData world_busy [''PS5'', ''PS5'']))
       = [''PS5-1700000000000'', ''PS5-1700000000000'']"
proof
  show "feed_reachable
          (checkAlerts world_busy (Fin 1) [] (fetchEcommerceData world_busy [''PS5'', ''PS5'']))"
    by (rule feed_reachable.step[OF feed_reachable.start])
  obtain kr kc where batch: "fetchEcommerceData world_busy [''PS5'', ''PS5'']
      = [fst (ecommerceRecord world_busy ''PS5'' 0 0), fst (ecommerceRecord world_busy ''PS5'' kr kc)]"
    unfolding fetchEcommerceData_def
    using map_gen_two[of "ecommerceRecord world_busy" "''PS5''" "''PS5''" 0 0] by auto
  show "map id_alert (checkAlerts world_busy (Fin 1) [] (fetchEcommerceData world_busy [''PS5'', ''PS5'']))
       = [''PS5-1700000000000'', ''PS5-1700000000000'']"
    unfolding batch
    by (subst two_alerts)
       (simp_all add: ps5_change ecommerce_symbol jgt_def rat_of_def,
        simp add: world_busy_def world0_def str_eval)
qed

end
